theory Spec2Isabelle
  imports Main "HOL-Library.Sublist" "HOL-Library.Multiset"
begin

section \<open>Regular expressions as used by \<open>validate_domain\<close>\<close>

text \<open>
  \<open>modules/subdomain.py\<close> validates host names with one compiled pattern,
  \<^verbatim>\<open>^(?:[a-zA-Z0-9](?:[a-zA-Z0-9-]{0,61}[a-zA-Z0-9])?\.)+[a-zA-Z]{2,}$\<close>,
  applied with \<open>re.match\<close>.  The pattern is transcribed below as a value of a small
  regular-expression type; matching is decided by Brzozowski derivatives.
  A character class is a list of ranges and single characters, as it is written
  between the brackets.
\<close>

datatype citem = Rng char char | Chr char

fun citem_match :: "citem \<Rightarrow> char \<Rightarrow> bool" where
  "citem_match (Rng lo hi) c =
     ((of_char lo :: nat) \<le> of_char c \<and> (of_char c :: nat) \<le> of_char hi)"
| "citem_match (Chr k) c = (c = k)"

definition cls_match :: "citem list \<Rightarrow> char \<Rightarrow> bool" where
  "cls_match items c = list_ex (\<lambda>i. citem_match i c) items"

datatype rexp = Zero | One | Cls "citem list" | Seq rexp rexp | Alt rexp rexp | Star rexp

fun nullable :: "rexp \<Rightarrow> bool" where
  "nullable Zero = False"
| "nullable One = True"
| "nullable (Cls _) = False"
| "nullable (Seq r s) = (nullable r \<and> nullable s)"
| "nullable (Alt r s) = (nullable r \<or> nullable s)"
| "nullable (Star _) = True"

text \<open>Constructors that drop \<open>Zero\<close> and \<open>One\<close> keep the derivatives small.\<close>

fun seq :: "rexp \<Rightarrow> rexp \<Rightarrow> rexp" where
  "seq Zero s = Zero"
| "seq One s = s"
| "seq r s = Seq r s"

fun alt :: "rexp \<Rightarrow> rexp \<Rightarrow> rexp" where
  "alt Zero s = s"
| "alt r Zero = r"
| "alt r s = Alt r s"

fun deriv :: "char \<Rightarrow> rexp \<Rightarrow> rexp" where
  "deriv c Zero = Zero"
| "deriv c One = Zero"
| "deriv c (Cls items) = (if cls_match items c then One else Zero)"
| "deriv c (Seq r s) =
     (if nullable r then alt (seq (deriv c r) s) (deriv c s) else seq (deriv c r) s)"
| "deriv c (Alt r s) = alt (deriv c r) (deriv c s)"
| "deriv c (Star r) = seq (deriv c r) (Star r)"

fun matches :: "rexp \<Rightarrow> string \<Rightarrow> bool" where
  "matches r [] = nullable r"
| "matches r (c # cs) = matches (deriv c r) cs"

text \<open>The postfix operators of the pattern: \<open>r?\<close>, \<open>r+\<close>, \<open>r{0,n}\<close> and \<open>r{n,}\<close>.\<close>

definition opt :: "rexp \<Rightarrow> rexp" where
  "opt r = Alt r One"

definition plus1 :: "rexp \<Rightarrow> rexp" where
  "plus1 r = Seq r (Star r)"

fun rep_upto :: "nat \<Rightarrow> rexp \<Rightarrow> rexp" where
  "rep_upto 0 r = One"
| "rep_upto (Suc n) r = opt (Seq r (rep_upto n r))"

fun rep_atleast :: "nat \<Rightarrow> rexp \<Rightarrow> rexp" where
  "rep_atleast 0 r = Star r"
| "rep_atleast (Suc n) r = Seq r (rep_atleast n r)"

text \<open>
  \<open>re.match(p, s)\<close> for a pattern \<open>^ r $\<close> without flags: \<open>^\<close> is the start of the
  string, and \<open>$\<close> is the end of the string or the position just before a newline that
  is the last character of the string.
\<close>

definition re_match :: "rexp \<Rightarrow> string \<Rightarrow> bool" where
  "re_match r s =
     (matches r s \<or> (s \<noteq> [] \<and> last s = CHR 0x0A \<and> matches r (butlast s)))"

subsection \<open>The pattern of \<open>validate_domain\<close>\<close>

definition alnum :: "citem list" where
  "alnum = [Rng CHR ''a'' CHR ''z'', Rng CHR ''A'' CHR ''Z'', Rng CHR ''0'' CHR ''9'']"

definition alnumhyph :: "citem list" where
  "alnumhyph =
     [Rng CHR ''a'' CHR ''z'', Rng CHR ''A'' CHR ''Z'', Rng CHR ''0'' CHR ''9'', Chr CHR ''-'']"

definition alpha :: "citem list" where
  "alpha = [Rng CHR ''a'' CHR ''z'', Rng CHR ''A'' CHR ''Z'']"

definition label_pattern :: rexp where
  "label_pattern = Seq (Cls alnum) (opt (Seq (rep_upto 61 (Cls alnumhyph)) (Cls alnum)))"

definition domain_pattern :: rexp where
  "domain_pattern =
     Seq (plus1 (Seq label_pattern (Cls [Chr CHR ''.'']))) (rep_atleast 2 (Cls alpha))"

definition validate_domain :: "string \<Rightarrow> bool" where
  "validate_domain domain = re_match domain_pattern domain"

section \<open>Strings, logging, configuration and HTTP\<close>

text \<open>
  \<open>str.strip()\<close> removes leading and trailing white space.  For characters below
  256 Python's white space is 9 to 13, 28 to 32, 133 and 160.
\<close>

definition is_space :: "char \<Rightarrow> bool" where
  "is_space c =
     (let n = (of_char c :: nat)
      in (9 \<le> n \<and> n \<le> 13) \<or> (28 \<le> n \<and> n \<le> 32) \<or> n = 133 \<or> n = 160)"

definition py_strip :: "string \<Rightarrow> string" where
  "py_strip s = rev (dropWhile is_space (rev (dropWhile is_space s)))"

text \<open>\<open>a in b\<close> on strings: \<open>a\<close> occurs in \<open>b\<close> as a contiguous substring.\<close>

fun contains :: "string \<Rightarrow> string \<Rightarrow> bool" where
  "contains d [] = (d = [])"
| "contains d (c # cs) = (prefix d (c # cs) \<or> contains d cs)"

datatype level = DEBUG | INFO | WARNING | ERROR

type_synonym log = "(level \<times> string) list"

text \<open>
  The exceptions that the collectors and the orchestrator can meet.  All of them are
  subclasses of Python's \<open>Exception\<close>, so an \<open>except Exception\<close> clause catches
  each of them.
\<close>

datatype exn =
    KeyError string
  | HTTPError nat
  | RequestException
  | JSONDecodeError
  | CalledProcessError
  | UnicodeDecodeError
  | OSError

text \<open>
  The part of the YAML configuration that the collectors read.  \<open>has_global\<close> says
  whether the key \<open>'global'\<close> is present (\<open>config['global']\<close> raises \<open>KeyError\<close>
  otherwise); an API key is \<open>None\<close> when it is not configured.
\<close>

record config =
  has_global :: bool
  tools_path :: "string option"
  securitytrails_api_key :: "string option"
  zoomeye_api_key :: "string option"
  shodan_api_key :: "string option"

text \<open>\<open>if not api_key\<close>: \<open>None\<close> and the empty string are false.\<close>

definition truthy :: "string option \<Rightarrow> bool" where
  "truthy k = (case k of None \<Rightarrow> False | Some s \<Rightarrow> s \<noteq> [])"

text \<open>
  What one HTTP request comes back with: the \<open>requests\<close> call raises a
  \<open>RequestException\<close> (connection failure, timeout), or there is a response with a
  status code and a body.  \<open>raise_for_status\<close> raises \<open>HTTPError\<close> for the statuses
  400 to 599.
\<close>

datatype 'a http = Raises | Response nat 'a

definition raise_for_status :: "nat \<Rightarrow> bool" where
  "raise_for_status status = (400 \<le> status \<and> status < 600)"

text \<open>A request that was sent: the method, the URL and, for the paginated search, the page.\<close>

datatype request = GET string | POST string nat nat

text \<open>What a collector leaves behind: the set it returns, the requests it sent, its log.\<close>

record collected =
  found :: "string set"
  sent :: "request list"
  logged :: log

definition nothing :: "request list \<Rightarrow> log \<Rightarrow> collected" where
  "nothing reqs lg = \<lparr>found = {}, sent = reqs, logged = lg\<rparr>"

definition summary :: "string \<Rightarrow> string set \<Rightarrow> level \<times> string" where
  "summary name s = (if s \<noteq> {} then (INFO, name @ '' done'') else (WARNING, name @ '' found nothing''))"

section \<open>The collectors with one request\<close>

subsection \<open>\<open>run_securitytrails\<close>\<close>

text \<open>
  The JSON body is \<open>None\<close> when it cannot be decoded; otherwise it holds the value of
  \<open>data.get('subdomains', [])\<close>.
\<close>

definition securitytrails_add :: "string \<Rightarrow> string \<Rightarrow> string set \<Rightarrow> string set" where
  "securitytrails_add domain sub subdomains =
     (let full_domain = sub @ ''.'' @ domain
      in if validate_domain full_domain then insert full_domain subdomains else subdomains)"

definition run_securitytrails ::
  "config \<Rightarrow> string \<Rightarrow> (request \<Rightarrow> string list option http) \<Rightarrow> collected" where
  "run_securitytrails cfg domain server =
     (if \<not> truthy (securitytrails_api_key cfg)
      then nothing [] [(ERROR, ''SecurityTrails API key not configured'')]
      else
        let req = GET (''https://api.securitytrails.com/v1/domain/'' @ domain @ ''/subdomains'')
        in case server req of
             Raises \<Rightarrow> nothing [req] [(ERROR, ''SecurityTrails processing failed'')]
           | Response status body \<Rightarrow>
               if raise_for_status status
               then nothing [req]
                      [(ERROR, if status = 401 then ''SecurityTrails key invalid''
                               else if status = 429 then ''SecurityTrails limit exceeded''
                               else ''SecurityTrails request failed'')]
               else (case body of
                       None \<Rightarrow> nothing [req] [(ERROR, ''SecurityTrails processing failed'')]
                     | Some subs \<Rightarrow>
                         let subdomains = fold (securitytrails_add domain) subs {}
                         in \<lparr>found = subdomains, sent = [req],
                             logged = [summary ''SecurityTrails'' subdomains]\<rparr>))"

subsection \<open>\<open>run_shodan\<close>\<close>

text \<open>
  The body is a JSON object from record types to lists of records; of a record only
  the key \<open>'subdomain'\<close> is read (\<open>None\<close> when the record has no such key).
\<close>

type_synonym shodan_data = "(string \<times> string option list) list"

definition shodan_add :: "string \<Rightarrow> string option \<Rightarrow> string set \<Rightarrow> string set" where
  "shodan_add domain record subdomains =
     (if truthy record
      then (let full_domain = the record @ ''.'' @ domain
            in if validate_domain full_domain then insert full_domain subdomains
               else subdomains)
      else subdomains)"

definition shodan_records :: "shodan_data \<Rightarrow> string \<Rightarrow> string option list" where
  "shodan_records data record_type =
     (case map_of data record_type of None \<Rightarrow> [] | Some rs \<Rightarrow> rs)"

definition shodan_extract :: "string \<Rightarrow> shodan_data \<Rightarrow> string set" where
  "shodan_extract domain data =
     fold (\<lambda>record_type subdomains.
             fold (shodan_add domain) (shodan_records data record_type) subdomains)
       [''a'', ''aaaa'', ''cname'', ''mx'', ''ns'', ''txt''] {}"

definition run_shodan ::
  "config \<Rightarrow> string \<Rightarrow> (request \<Rightarrow> shodan_data option http) \<Rightarrow> collected" where
  "run_shodan cfg domain server =
     (if \<not> truthy (shodan_api_key cfg)
      then nothing [] [(ERROR, ''Shodan API key not configured'')]
      else
        let req = GET (''https://api.shodan.io/dns/domain/'' @ domain @ ''?key=''
                       @ the (shodan_api_key cfg))
        in case server req of
             Raises \<Rightarrow> nothing [req] [(ERROR, ''Shodan request failed'')]
           | Response status body \<Rightarrow>
               if raise_for_status status
               then nothing [req]
                      [(ERROR, if status = 401 then ''Shodan key invalid''
                               else if status = 404 then ''Shodan has no record''
                               else ''Shodan request failed'')]
               else (case body of
                       None \<Rightarrow> nothing [req] [(ERROR, ''Shodan processing failed'')]
                     | Some data \<Rightarrow>
                         let subdomains = shodan_extract domain data
                         in \<lparr>found = subdomains, sent = [req],
                             logged = [summary ''Shodan'' subdomains]\<rparr>))"

subsection \<open>\<open>run_crtsh\<close>\<close>

text \<open>
  The HTML is parsed by a library; the model takes its result, the text of the cells
  of each table row.
\<close>

definition crtsh_add :: "string \<Rightarrow> string list \<Rightarrow> string set \<Rightarrow> string set" where
  "crtsh_add domain cells subdomains =
     (if length cells \<ge> 5
      then (let subdomain = py_strip (cells ! 4)
            in if contains domain subdomain \<and> validate_domain subdomain
               then insert subdomain subdomains else subdomains)
      else subdomains)"

definition run_crtsh :: "string \<Rightarrow> (request \<Rightarrow> string list list http) \<Rightarrow> collected" where
  "run_crtsh domain server =
     (let req = GET (''https://crt.sh/?q=%25.'' @ domain)
      in case server req of
           Raises \<Rightarrow> nothing [req] [(ERROR, ''crt.sh request failed'')]
         | Response status rows \<Rightarrow>
             if raise_for_status status
             then nothing [req] [(ERROR, ''crt.sh request failed'')]
             else (let subdomains = fold (crtsh_add domain) rows {}
                   in \<lparr>found = subdomains, sent = [req],
                       logged = [(INFO, ''collecting from crt.sh''),
                                 summary ''crt.sh'' subdomains]\<rparr>))"

section \<open>The paginated collector \<open>run_zoomeye\<close>\<close>

text \<open>\<open>s.split(c)\<close>: the pieces of \<open>s\<close> between the occurrences of \<open>c\<close>.\<close>

fun split_on :: "char \<Rightarrow> string \<Rightarrow> string list" where
  "split_on c [] = [[]]"
| "split_on c (x # xs) =
     (if x = c then [] # split_on c xs
      else (case split_on c xs of w # ws \<Rightarrow> (x # w) # ws | [] \<Rightarrow> [[x]]))"

text \<open>
  An element of the list \<open>data['data']\<close>: of each item the keys \<open>'domain'\<close> and
  \<open>'url'\<close> are read, \<open>None\<close> when the key is absent.  The body of a response
  holds \<open>data.get('total', 0)\<close> and \<open>data.get('data', [])\<close>.
\<close>

record zoomeye_item =
  item_domain :: "string option"
  item_url :: "string option"

record zoomeye_data =
  total :: "int option"
  items :: "zoomeye_item list"

text \<open>
  The body of the loop over the items.  The state is the set \<open>subdomains\<close> and the
  variable \<open>url\<close>, which the \<open>elif 'url' in item\<close> branch assigns: it is the same
  variable that holds the address of the search API.  \<open>None\<close> stands for the
  \<open>IndexError\<close> of \<open>url.split('/')[2]\<close>.
\<close>

definition zoomeye_item_step ::
  "string \<Rightarrow> zoomeye_item \<Rightarrow> string set \<times> string \<Rightarrow> (string set \<times> string) option" where
  "zoomeye_item_step domain item st =
     (case item_domain item of
        Some d \<Rightarrow> Some (if validate_domain d then insert d (fst st) else fst st, snd st)
      | None \<Rightarrow>
          (case item_url item of
             None \<Rightarrow> Some st
           | Some url \<Rightarrow>
               if prefix ''http://'' url \<or> prefix ''https://'' url
               then (let parts = split_on CHR ''/'' url
                     in if length parts > 2
                        then (let domain_part = parts ! 2
                              in Some (if suffix domain domain_part \<and> validate_domain domain_part
                                       then insert domain_part (fst st) else fst st, url))
                        else None)
               else Some (fst st, url)))"

fun zoomeye_items ::
  "string \<Rightarrow> zoomeye_item list \<Rightarrow> string set \<times> string \<Rightarrow> (string set \<times> string) option" where
  "zoomeye_items domain [] st = Some st"
| "zoomeye_items domain (item # rest) st =
     (case zoomeye_item_step domain item st of
        None \<Rightarrow> None
      | Some st' \<Rightarrow> zoomeye_items domain rest st')"

text \<open>The local variables of \<open>run_zoomeye\<close> that the \<open>while\<close> loop changes.\<close>

record zstate =
  z_subdomains :: "string set"
  z_url :: string
  z_page :: nat
  z_current_page :: nat
  z_total_pages :: int
  z_sent :: "request list"
  z_log :: log
  z_raised :: bool

definition pagesize :: nat where
  "pagesize = 100"

text \<open>
  One iteration of the loop body: the new state, and whether the loop goes on.
  A \<open>RequestException\<close> (the request fails, the status is an error status, or the
  body is not JSON) is caught inside the loop, which then stops.  Any other exception
  leaves the loop for the outer handler, which is recorded in \<open>z_raised\<close>.
\<close>

definition zoomeye_page ::
  "string \<Rightarrow> (request \<Rightarrow> zoomeye_data option http) \<Rightarrow> zstate \<Rightarrow> zstate \<times> bool" where
  "zoomeye_page domain server st =
     (let req = POST (z_url st) (z_page st) pagesize;
          st1 = st\<lparr>z_sent := z_sent st @ [req]\<rparr>;
          failed = (st1\<lparr>z_log := z_log st @ [(ERROR, ''ZoomEye page failed'')]\<rparr>, False)
      in case server req of
           Raises \<Rightarrow> failed
         | Response status body \<Rightarrow>
             if raise_for_status status then failed
             else (case body of
                     None \<Rightarrow> failed
                   | Some data \<Rightarrow>
                       let total_count = (case total data of None \<Rightarrow> 0 | Some t \<Rightarrow> t);
                           total_pages =
                             (if z_current_page st = 1
                              then (total_count + int pagesize - 1) div int pagesize
                              else z_total_pages st);
                           st2 = st1\<lparr>z_total_pages := total_pages\<rparr>
                       in case zoomeye_items domain (items data) (z_subdomains st, z_url st) of
                            None \<Rightarrow> (st2\<lparr>z_raised := True\<rparr>, False)
                          | Some (subdomains, url) \<Rightarrow>
                              let st3 = st2\<lparr>z_subdomains := subdomains, z_url := url\<rparr>
                              in if int (z_current_page st) < total_pages
                                 then (st3\<lparr>z_page := z_page st + 1,
                                            z_current_page := z_current_page st + 1\<rparr>, True)
                                 else (st3, False)))"

lemma zoomeye_page_continues:
  assumes "zoomeye_page domain server st = (st', True)"
  shows "z_current_page st' = z_current_page st + 1"
    and "int (z_current_page st) < z_total_pages st'"
    and "z_current_page st \<noteq> 1 \<Longrightarrow> z_total_pages st' = z_total_pages st"
  using assms
  by (auto simp: zoomeye_page_def Let_def
           split: http.splits option.splits if_splits prod.splits)

function zoomeye_loop ::
  "string \<Rightarrow> (request \<Rightarrow> zoomeye_data option http) \<Rightarrow> zstate \<Rightarrow> zstate" where
  "zoomeye_loop domain server st =
     (if int (z_current_page st) \<le> z_total_pages st
      then (case zoomeye_page domain server st of
              (st', True) \<Rightarrow> zoomeye_loop domain server st'
            | (st', False) \<Rightarrow> st')
      else st)"
  by pat_completeness auto
termination
proof (relation "measures [\<lambda>(d, s, st). 2 - z_current_page st,
                           \<lambda>(d, s, st). nat (z_total_pages st - int (z_current_page st))]",
       goal_cases)
  case 1
  show ?case by simp
next
  case (2 domain server st st' go)
  then have p: "zoomeye_page domain server st = (st', True)"
    by simp
  show ?case
  proof (cases "z_current_page st = 1")
    case True
    with zoomeye_page_continues(1) [OF p] show ?thesis by simp
  next
    case False
    with zoomeye_page_continues [OF p] show ?thesis by auto
  qed
qed

definition run_zoomeye ::
  "config \<Rightarrow> string \<Rightarrow> (request \<Rightarrow> zoomeye_data option http) \<Rightarrow> collected" where
  "run_zoomeye cfg domain server =
     (if \<not> truthy (zoomeye_api_key cfg)
      then nothing [] [(ERROR, ''ZoomEye API key not configured'')]
      else
        let st = zoomeye_loop domain server
                   \<lparr>z_subdomains = {}, z_url = ''https://api.zoomeye.org/v2/search'',
                    z_page = 1, z_current_page = 1, z_total_pages = 1, z_sent = [],
                    z_log = [(INFO, ''collecting from ZoomEye'')], z_raised = False\<rparr>
        in \<lparr>found = z_subdomains st, sent = z_sent st,
            logged = z_log st @ (if z_raised st then [(ERROR, ''ZoomEye processing failed'')]
                                 else [summary ''ZoomEye'' (z_subdomains st)])\<rparr>)"

section \<open>The local-binary collector \<open>run_subfinder\<close>\<close>

text \<open>
  The file system and the external process, as far as the collector sees them.
  The codecs are Python's: \<open>decode\<close> gives the text of a byte string in an encoding,
  or \<open>None\<close> for a \<open>UnicodeDecodeError\<close>.  \<open>open_file\<close> is \<open>None\<close> when
  \<open>open\<close> raises.  \<open>run_process\<close> is \<open>subprocess.run\<close> with \<open>check=True\<close>.
\<close>

datatype encoding = UTF8 | GBK | UTF8_SIG

datatype proc = CannotStart | Exited nat

record fs =
  path_exists :: "string \<Rightarrow> bool"
  run_process :: "string list \<Rightarrow> proc"
  output_exists :: "string \<Rightarrow> bool"
  open_file :: "string \<Rightarrow> string option"
  decode :: "encoding \<Rightarrow> string \<Rightarrow> string option"

text \<open>
  A file opened in text mode translates \<open>\r\n\<close> and \<open>\r\<close> to \<open>\n\<close>; iterating
  over it gives the lines.  The lines are only used stripped and when not empty, so the
  pieces between the newlines stand for them.
\<close>

fun translate_newlines :: "string \<Rightarrow> string" where
  "translate_newlines [] = []"
| "translate_newlines [c] = [if c = CHR 0x0D then CHR 0x0A else c]"
| "translate_newlines (c # d # cs) =
     (if c = CHR 0x0D \<and> d = CHR 0x0A then CHR 0x0A # translate_newlines cs
      else if c = CHR 0x0D then CHR 0x0A # translate_newlines (d # cs)
      else c # translate_newlines (d # cs))"

definition text_lines :: "string \<Rightarrow> string list" where
  "text_lines text = split_on CHR 0x0A (translate_newlines text)"

definition stripped_lines :: "string \<Rightarrow> string set" where
  "stripped_lines text = set (filter (\<lambda>l. l \<noteq> []) (map py_strip (text_lines text)))"

fun read_with :: "fs \<Rightarrow> string \<Rightarrow> encoding list \<Rightarrow> log \<Rightarrow> string set \<times> log" where
  "read_with env file_path [] lg = ({}, lg)"
| "read_with env file_path (enc # rest) lg =
     (case open_file env file_path of
        None \<Rightarrow> read_with env file_path rest (lg @ [(ERROR, ''error reading file'')])
      | Some bytes \<Rightarrow>
          (case decode env enc bytes of
             None \<Rightarrow> read_with env file_path rest lg
           | Some text \<Rightarrow> (stripped_lines text, lg)))"

definition encodings :: "encoding list" where
  "encodings = [UTF8, GBK, UTF8_SIG]"

definition read_file_with_encoding :: "fs \<Rightarrow> string \<Rightarrow> string set \<times> log" where
  "read_file_with_encoding env file_path = read_with env file_path encodings []"

text \<open>Path and string helpers of the standard library, for paths with \<open>/\<close>.\<close>

definition path_join :: "string \<Rightarrow> string \<Rightarrow> string" where
  "path_join a b =
     (if prefix ''/'' b then b
      else if a = [] \<or> suffix ''/'' a then a @ b
      else a @ ''/'' @ b)"

definition basename :: "string \<Rightarrow> string" where
  "basename p = last (split_on CHR ''/'' p)"

definition splitext_root :: "string \<Rightarrow> string" where
  "splitext_root f =
     (if suffix ''.txt'' f \<and> list_ex (\<lambda>c. c \<noteq> CHR ''.'') (take (length f - 4) f)
      then take (length f - 4) f else f)"

definition strip_quotes :: "string \<Rightarrow> string" where
  "strip_quotes s =
     rev (dropWhile (\<lambda>c. c = CHR 0x22) (rev (dropWhile (\<lambda>c. c = CHR 0x22) s)))"

definition safe_name :: "string \<Rightarrow> string" where
  "safe_name s =
     map (\<lambda>c. if c \<in> set [CHR 0x5C, CHR ''/'', CHR '':'', CHR ''*'', CHR ''?'', CHR 0x22,
                              CHR ''<'', CHR ''>'', CHR ''|'']
               then CHR ''_'' else c) s"

definition run_subfinder :: "config \<Rightarrow> string \<Rightarrow> fs \<Rightarrow> exn + collected" where
  "run_subfinder cfg domain env =
     (if \<not> has_global cfg then Inl (KeyError ''global'')
      else
        let tools = (case tools_path cfg of None \<Rightarrow> ''tools'' | Some p \<Rightarrow> p);
            subfinder_path = path_join tools ''subfinder.exe''
        in if \<not> path_exists env subfinder_path
           then Inr (nothing [] [(ERROR, ''subfinder.exe not found'')])
           else
             let clean_domain = strip_quotes domain;
                 is_file_input = (path_exists env clean_domain \<and> suffix ''.txt'' clean_domain)
             in if \<not> is_file_input \<and> \<not> validate_domain clean_domain
                then Inr (nothing [] [(ERROR, ''invalid domain format'')])
                else
                  let safe_output =
                        (if is_file_input
                         then path_join (path_join ''results'' ''subdomains'')
                                (''subdomains_'' @ splitext_root (safe_name (basename clean_domain))
                                 @ ''.txt'')
                         else path_join (path_join ''results'' ''subdomains'')
                                (''subdomains_'' @ safe_name clean_domain @ ''.txt''));
                      cmd = (if is_file_input
                             then [subfinder_path, ''-dL'', clean_domain, ''-o'', safe_output, ''-all'']
                             else [subfinder_path, ''-d'', clean_domain, ''-o'', safe_output, ''-all''])
                  in case run_process env cmd of
                       CannotStart \<Rightarrow> Inr (nothing [] [(ERROR, ''unknown error running subfinder'')])
                     | Exited code \<Rightarrow>
                         if code \<noteq> 0 then Inr (nothing [] [(ERROR, ''subfinder failed'')])
                         else if output_exists env safe_output
                         then (let (result_domains, lg) = read_file_with_encoding env safe_output
                               in Inr \<lparr>found = result_domains, sent = [],
                                       logged = lg @ [summary ''subfinder'' result_domains]\<rparr>)
                         else Inr (nothing [] [(ERROR, ''output file not found'')]))"

section \<open>The orchestrator: choice 4 of \<open>run\<close>\<close>

text \<open>
  Everything outside the program that a run of all collectors depends on: the file
  system, the four servers, the instant at which each task completes (which fixes the
  order of \<open>as_completed\<close>), and whether writing the spreadsheet succeeds.
\<close>

record world =
  files :: fs
  crtsh_server :: "request \<Rightarrow> string list list http"
  securitytrails_server :: "request \<Rightarrow> string list option http"
  zoomeye_server :: "request \<Rightarrow> zoomeye_data option http"
  shodan_server :: "request \<Rightarrow> shodan_data option http"
  finished_at :: "string \<Rightarrow> nat"
  excel_ok :: bool

type_synonym task = "string \<times> (world \<Rightarrow> exn + collected)"

definition collection_tasks :: "config \<Rightarrow> string \<Rightarrow> task list" where
  "collection_tasks cfg domain =
     [(''subfinder'', \<lambda>w. run_subfinder cfg domain (files w)),
      (''crtsh'', \<lambda>w. Inr (run_crtsh domain (crtsh_server w)))]
     @ (if truthy (securitytrails_api_key cfg)
        then [(''securitytrails'', \<lambda>w. Inr (run_securitytrails cfg domain (securitytrails_server w)))]
        else [])
     @ (if truthy (zoomeye_api_key cfg)
        then [(''zoomeye'', \<lambda>w. Inr (run_zoomeye cfg domain (zoomeye_server w)))]
        else [])
     @ (if truthy (shodan_api_key cfg)
        then [(''shodan'', \<lambda>w. Inr (run_shodan cfg domain (shodan_server w)))]
        else [])"

text \<open>\<open>results[k] = v\<close> on a dictionary that keeps the order of insertion.\<close>

fun dict_set :: "'k \<Rightarrow> 'v \<Rightarrow> ('k \<times> 'v) list \<Rightarrow> ('k \<times> 'v) list" where
  "dict_set k v [] = [(k, v)]"
| "dict_set k v ((k', v') # rest) =
     (if k = k' then (k, v) # rest else (k', v') # dict_set k v rest)"

text \<open>
  The loop over \<open>as_completed\<close>: a future holds what its task returned or the
  exception it raised; \<open>future.result()\<close> raises that exception again, inside the
  \<open>try\<close> whose handler is \<open>except Exception\<close>.
\<close>

fun collect ::
  "(string \<times> (exn + collected)) list \<Rightarrow> (string \<times> string set) list \<times> log \<Rightarrow>
   (string \<times> string set) list \<times> log" where
  "collect [] acc = acc"
| "collect ((task_name, future) # rest) (results, lg) =
     (case future of
        Inr c \<Rightarrow>
          collect rest
            (dict_set task_name (found c) results,
             lg @ [if found c \<noteq> {} then (INFO, task_name @ '' finished'')
                   else (WARNING, task_name @ '' found nothing'')])
      | Inl e \<Rightarrow>
          collect rest
            (dict_set task_name {} results, lg @ [(ERROR, task_name @ '' failed'')]))"

definition combined_result :: "(string \<times> string set) list \<Rightarrow> string set" where
  "combined_result results = fold (\<union>) (filter (\<lambda>s. s \<noteq> {}) (map snd results)) {}"

definition any_found :: "(string \<times> string set) list \<Rightarrow> bool" where
  "any_found results = list_ex (\<lambda>domains. domains \<noteq> {}) (map snd results)"

text \<open>
  \<open>save_results_to_excel\<close>: one sheet for each source with a non-empty set, then the
  sheet of the merged result (its name is written \<open>merged\<close> here).  The writer's
  failure is the environment's.
\<close>

definition save_results_to_excel ::
  "(string \<times> string set) list \<Rightarrow> bool \<Rightarrow> bool \<times> (string \<times> string set) list" where
  "save_results_to_excel results ok =
     (if ok
      then (True, filter (\<lambda>(source, domains). domains \<noteq> {}) results
                  @ (if any_found results then [(''merged'', combined_result results)] else []))
      else (False, []))"

record report =
  results :: "(string \<times> string set) list"
  combined :: "string set option"
  sheets :: "(string \<times> string set) list"
  network :: "(string \<times> request) list"
  run_log :: log

definition requests_of :: "string \<times> (exn + collected) \<Rightarrow> (string \<times> request) list" where
  "requests_of f = (case snd f of Inl e \<Rightarrow> [] | Inr c \<Rightarrow> map (Pair (fst f)) (sent c))"

definition run_all :: "config \<Rightarrow> string \<Rightarrow> world \<Rightarrow> report" where
  "run_all cfg domain w =
     (let futures = map (\<lambda>(name, task). (name, task w)) (collection_tasks cfg domain);
          completed = sort_key (\<lambda>f. finished_at w (fst f)) futures;
          (results, lg) = collect completed ([], [(INFO, ''collecting with all methods'')]);
          net = concat (map requests_of futures)
      in if any_found results
         then (case save_results_to_excel results (excel_ok w) of
                 (True, written) \<Rightarrow>
                   \<lparr>results = results, combined = Some (combined_result results),
                    sheets = written, network = net,
                    run_log = lg @ [(INFO, ''results saved'')]\<rparr>
               | (False, written) \<Rightarrow>
                   \<lparr>results = results, combined = None, sheets = written, network = net,
                    run_log = lg @ [(ERROR, ''saving the results failed'')]\<rparr>)
         else \<lparr>results = results, combined = None, sheets = [], network = net,
                run_log = lg @ [(WARNING, ''no method found any subdomain'')]\<rparr>)"

text \<open>What a future contributes to \<open>results\<close>: the set returned, or the empty set.\<close>

definition outcome :: "exn + collected \<Rightarrow> string set" where
  "outcome f = (case f of Inl e \<Rightarrow> {} | Inr c \<Rightarrow> found c)"

text \<open>The futures of a run: each task of \<open>collection_tasks\<close> with what it came to.\<close>

definition futures_of :: "config \<Rightarrow> string \<Rightarrow> world \<Rightarrow> (string \<times> (exn + collected)) list" where
  "futures_of cfg d w = map (\<lambda>(name, task). (name, task w)) (collection_tasks cfg d)"

section \<open>Example inputs\<close>

definition plain_cfg :: config where
  "plain_cfg =
     \<lparr>has_global = True, tools_path = None, securitytrails_api_key = None,
      zoomeye_api_key = Some [], shodan_api_key = None\<rparr>"

text \<open>
  A file system where the tool is installed and leaves a file of two names.  The file
  is ASCII, and all three codecs decode ASCII bytes to the same characters.
\<close>

definition ascii_decode :: "encoding \<Rightarrow> string \<Rightarrow> string option" where
  "ascii_decode enc bytes =
     (if list_all (\<lambda>c. (of_char c :: nat) < 128) bytes then Some bytes else None)"

definition example_fs :: fs where
  "example_fs =
     \<lparr>path_exists = (\<lambda>p. p = ''tools/subfinder.exe''),
      run_process = (\<lambda>cmd. Exited 0),
      output_exists = (\<lambda>p. True),
      open_file = (\<lambda>p. Some (''a.example.com'' @ [CHR 0x0A] @ ''b.example.com'' @ [CHR 0x0A])),
      decode = ascii_decode\<rparr>"

definition example_world :: world where
  "example_world =
     \<lparr>files = example_fs,
      crtsh_server = (\<lambda>req. Response 200
         [[''1'', ''2'', ''3'', ''4'', ''b.example.com''],
          [''1'', ''2'', ''3'', ''4'', ''c.example.com'', ''6'']]),
      securitytrails_server = (\<lambda>req. Raises),
      zoomeye_server = (\<lambda>req. Raises),
      shodan_server = (\<lambda>req. Raises),
      finished_at = length,
      excel_ok = True\<rparr>"


definition example_cfg :: config where
  "example_cfg =
     \<lparr>has_global = True, tools_path = None, securitytrails_api_key = Some ''key'',
      zoomeye_api_key = None, shodan_api_key = Some ''key''\<rparr>"

definition securitytrails_reply :: "request \<Rightarrow> string list option http" where
  "securitytrails_reply req = Response 200 (Some [''www'', ''bad_label''])"

definition shodan_reply :: "request \<Rightarrow> shodan_data option http" where
  "shodan_reply req = Response 200 (Some [(''a'', [Some ''mail'', None]), (''soa'', [Some ''x''])])"

definition crtsh_page :: "request \<Rightarrow> string list list http" where
  "crtsh_page req =
     Response 200 [[''1'', ''2'', ''3'', ''4'', '' example.com.evil.org '', ''6'']]"



section \<open>The loop over the completed tasks\<close>

lemma map_of_dict_set: "map_of (dict_set k v xs) = (map_of xs)(k \<mapsto> v)"
  by (induction xs) (auto simp: fun_eq_iff)

lemma keys_dict_set:
  "map fst (dict_set k v xs) = (if k \<in> fst ` set xs then map fst xs else map fst xs @ [k])"
  by (induction xs) (force simp: image_iff)+

lemma collect_step:
  "collect ((n, f) # rest) (res, lg) =
     collect rest (dict_set n (outcome f) res,
                   lg @ [case f of Inl e \<Rightarrow> (ERROR, n @ '' failed'')
                         | Inr c \<Rightarrow> if found c \<noteq> {} then (INFO, n @ '' finished'')
                                    else (WARNING, n @ '' found nothing'')])"
  by (cases f) (simp_all add: outcome_def)

lemma collect_keys:
  "distinct (map fst futs) \<Longrightarrow> fst ` set futs \<inter> fst ` set res = {} \<Longrightarrow>
     map fst (fst (collect futs (res, lg))) = map fst res @ map fst futs"
proof (induction futs arbitrary: res lg)
  case Nil
  then show ?case by simp
next
  case (Cons a futs)
  obtain n f where a: "a = (n, f)" by (cases a)
  have k: "map fst (dict_set n (outcome f) res) = map fst res @ [n]"
    using Cons.prems(2) a by (auto simp: keys_dict_set)
  have "fst ` set futs \<inter> fst ` set (dict_set n (outcome f) res) = {}"
  proof -
    have "fst ` set (dict_set n (outcome f) res) = set (map fst (dict_set n (outcome f) res))"
      by simp
    also have "\<dots> = insert n (fst ` set res)" unfolding k by simp
    finally show ?thesis using Cons.prems a by auto
  qed
  with Cons.IH [of "dict_set n (outcome f) res"] Cons.prems(1) a
  show ?case unfolding a collect_step by (simp add: k)
qed

lemma collect_other:
  "n \<notin> fst ` set futs \<Longrightarrow> map_of (fst (collect futs (res, lg))) n = map_of res n"
proof (induction futs arbitrary: res lg)
  case Nil
  then show ?case by simp
next
  case (Cons a futs)
  obtain m f where a: "a = (m, f)" by (cases a)
  with Cons show ?case unfolding a collect_step by (simp add: map_of_dict_set)
qed

lemma collect_value:
  "distinct (map fst futs) \<Longrightarrow> (n, f) \<in> set futs \<Longrightarrow>
     map_of (fst (collect futs (res, lg))) n = Some (outcome f)"
proof (induction futs arbitrary: res lg)
  case Nil
  then show ?case by simp
next
  case (Cons a futs)
  obtain m g where a: "a = (m, g)" by (cases a)
  show ?case
  proof (cases "(n, f) = a")
    case True
    from True [symmetric] Cons.prems(1) have "n \<notin> fst ` set futs" by force
    then show ?thesis using True unfolding a collect_step
      by (simp add: collect_other map_of_dict_set)
  next
    case False
    with Cons.prems have "(n, f) \<in> set futs" "distinct (map fst futs)" by auto
    then show ?thesis unfolding a collect_step using Cons.IH by simp
  qed
qed



lemma fold_union: "fold (\<union>) xs acc = acc \<union> \<Union> (set xs)"
  by (induction xs arbitrary: acc) auto

lemma combined_result_union: "combined_result rs = \<Union> (snd ` set rs)"
  by (auto simp: combined_result_def fold_union)

lemma task_names_distinct: "distinct (map fst (collection_tasks cfg d))"
  by (simp add: collection_tasks_def)

lemma collect_set:
  assumes "distinct (map fst futs)"
  shows "set (fst (collect futs ([], lg))) = (\<lambda>f. (fst f, outcome (snd f))) ` set futs"
proof -
  let ?res = "fst (collect futs ([], lg))"
  have keys: "map fst ?res = map fst futs"
    using collect_keys [OF assms, of "[]" lg] by simp
  then have d: "distinct (map fst ?res)" using assms by simp
  show ?thesis
  proof (intro set_eqI iffI)
    fix x assume x: "x \<in> set ?res"
    obtain n v where nv: "x = (n, v)" by (cases x)
    from x nv have "n \<in> set (map fst ?res)" by force
    then have "n \<in> fst ` set futs" unfolding keys by simp
    then obtain f where f: "(n, f) \<in> set futs" by force
    from collect_value [OF assms f] have "map_of ?res n = Some (outcome f)" .
    moreover from x nv d have "map_of ?res n = Some v" by simp
    ultimately have "v = outcome f" by simp
    with f nv show "x \<in> (\<lambda>f. (fst f, outcome (snd f))) ` set futs" by force
  next
    fix x assume "x \<in> (\<lambda>f. (fst f, outcome (snd f))) ` set futs"
    then obtain n f where f: "(n, f) \<in> set futs" and x: "x = (n, outcome f)" by force
    from collect_value [OF assms f] have "map_of ?res n = Some (outcome f)" .
    then show "x \<in> set ?res" unfolding x by (rule map_of_SomeD)
  qed
qed

lemma futures_names: "map fst (futures_of cfg d w) = map fst (collection_tasks cfg d)"
  by (simp add: futures_of_def case_prod_unfold comp_def)

lemma run_all_results:
  "results (run_all cfg d w) =
     fst (collect (sort_key (\<lambda>f. finished_at w (fst f)) (futures_of cfg d w))
            ([], [(INFO, ''collecting with all methods'')]))"
  by (simp add: run_all_def futures_of_def Let_def case_prod_unfold bool.case_eq_if)



lemma sorted_futures_distinct:
  "distinct (map fst (sort_key k (futures_of cfg d w)))"
proof -
  have "mset (map fst (sort_key k (futures_of cfg d w))) = mset (map fst (futures_of cfg d w))"
    by simp
  moreover have "distinct (map fst (futures_of cfg d w))"
    by (simp add: futures_names task_names_distinct)
  ultimately show ?thesis using mset_eq_imp_distinct_iff by blast
qed


lemma run_all_value:
  assumes "(name, task) \<in> set (collection_tasks cfg d)"
  shows "map_of (results (run_all cfg d w)) name = Some (outcome (task w))"
proof -
  from assms have "(name, task w) \<in> set (futures_of cfg d w)"
    by (force simp: futures_of_def)
  then have "(name, task w) \<in> set (sort_key (\<lambda>f. finished_at w (fst f)) (futures_of cfg d w))"
    by simp
  from collect_value [OF sorted_futures_distinct this] show ?thesis
    unfolding run_all_results .
qed


lemma run_all_set:
  "set (results (run_all cfg d w)) = (\<lambda>f. (fst f, outcome (snd f))) ` set (futures_of cfg d w)"
  unfolding run_all_results using collect_set [OF sorted_futures_distinct] by simp

lemma task_ignores_order:
  "(name, task) \<in> set (collection_tasks cfg d) \<Longrightarrow> task (w\<lparr>finished_at := k\<rparr>) = task w"
  by (auto simp: collection_tasks_def split: if_splits)

lemma futures_ignore_order: "futures_of cfg d (w\<lparr>finished_at := k\<rparr>) = futures_of cfg d w"
  unfolding futures_of_def using task_ignores_order by (intro map_cong) auto



section \<open>The run of all collectors\<close>

lemma example_results:
  "results (run_all plain_cfg ''example.com'' example_world) =
     [(''crtsh'', {''b.example.com'', ''c.example.com''}),
      (''subfinder'', {''a.example.com'', ''b.example.com''})]"
  by code_simp

lemma example_combined:
  "combined (run_all plain_cfg ''example.com'' example_world) =
     Some {''a.example.com'', ''b.example.com'', ''c.example.com''}"
  by code_simp

lemma example_sheets:
  "sheets (run_all plain_cfg ''example.com'' example_world) =
     [(''crtsh'', {''b.example.com'', ''c.example.com''}),
      (''subfinder'', {''a.example.com'', ''b.example.com''}),
      (''merged'', {''a.example.com'', ''b.example.com'', ''c.example.com''})]"
  by code_simp

lemma run_all_combined:
  "combined (run_all cfg d w) =
     (if any_found (results (run_all cfg d w)) \<and> excel_ok w
      then Some (\<Union> (snd ` set (results (run_all cfg d w)))) else None)"
  by (simp add: run_all_def Let_def case_prod_unfold bool.case_eq_if
        save_results_to_excel_def combined_result_union)

lemma run_all_order:
  "combined_result (results (run_all cfg d (w\<lparr>finished_at := k\<rparr>)))
     = combined_result (results (run_all cfg d w))"
  unfolding combined_result_union run_all_set futures_ignore_order ..


text \<open>
  Claim C1.  The combined result is the union of the per-source sets.  It does not
  depend on the order of the sources (in particular not on the order in which the tasks
  complete), and a set that is merged a second time changes nothing.  In a run every
  source keeps its own set under its own name; the combined result is computed when
  some source found something and the spreadsheet was written.  With a tool that returns
  \<open>a.example.com\<close> and \<open>b.example.com\<close> and a certificate log that returns
  \<open>b.example.com\<close> and \<open>c.example.com\<close>, the combined result is the three names
  and both per-source sets are kept.
\<close>

theorem combined_result_is_commutative_union:
  "combined_result rs = \<Union> (snd ` set rs) \<and>
   combined_result [(A, a), (B, b)] = combined_result [(B, b), (A, a)] \<and>
   (set rs = set rs' \<longrightarrow> combined_result rs = combined_result rs') \<and>
   ((n, s) \<in> set rs \<longrightarrow> combined_result (rs @ [(n', s)]) = combined_result rs) \<and>
   combined_result (results (run_all cfg d (w\<lparr>finished_at := k\<rparr>)))
     = combined_result (results (run_all cfg d w)) \<and>
   (\<forall>(name, task) \<in> set (collection_tasks cfg d).
      map_of (results (run_all cfg d w)) name = Some (outcome (task w))) \<and>
   combined (run_all cfg d w) =
     (if any_found (results (run_all cfg d w)) \<and> excel_ok w
      then Some (\<Union> (snd ` set (results (run_all cfg d w)))) else None) \<and>
   results (run_all plain_cfg ''example.com'' example_world) =
     [(''crtsh'', {''b.example.com'', ''c.example.com''}),
      (''subfinder'', {''a.example.com'', ''b.example.com''})] \<and>
   combined (run_all plain_cfg ''example.com'' example_world) =
     Some {''a.example.com'', ''b.example.com'', ''c.example.com''} \<and>
   sheets (run_all plain_cfg ''example.com'' example_world) =
     [(''crtsh'', {''b.example.com'', ''c.example.com''}),
      (''subfinder'', {''a.example.com'', ''b.example.com''}),
      (''merged'', {''a.example.com'', ''b.example.com'', ''c.example.com''})]"
proof (intro conjI)
  show "combined_result rs = \<Union> (snd ` set rs)" by (rule combined_result_union)
  show "combined_result [(A, a), (B, b)] = combined_result [(B, b), (A, a)]"
    unfolding combined_result_union by auto
  show "set rs = set rs' \<longrightarrow> combined_result rs = combined_result rs'"
    unfolding combined_result_union by simp
  show "(n, s) \<in> set rs \<longrightarrow> combined_result (rs @ [(n', s)]) = combined_result rs"
    unfolding combined_result_union by force
  show "combined_result (results (run_all cfg d (w\<lparr>finished_at := k\<rparr>)))
          = combined_result (results (run_all cfg d w))"
    by (rule run_all_order)
  show "\<forall>(name, task) \<in> set (collection_tasks cfg d).
          map_of (results (run_all cfg d w)) name = Some (outcome (task w))"
    using run_all_value by blast
  show "combined (run_all cfg d w) =
     (if any_found (results (run_all cfg d w)) \<and> excel_ok w
      then Some (\<Union> (snd ` set (results (run_all cfg d w)))) else None)"
    by (rule run_all_combined)
qed (rule example_results example_combined example_sheets)+

theorem combined_result_is_commutative_union_witness:
  "set [(''s'', {''a''})] = set [(''s'', {''a''}), (''s'', {''a''})] \<and>
   combined_result [(''s'', {''a''})] = combined_result [(''s'', {''a''}), (''s'', {''a''})] \<and>
   (''s'', {''a''}) \<in> set [(''s'', {''a''})] \<and>
   combined_result ([(''s'', {''a''})] @ [(''t'', {''a''})]) = combined_result [(''s'', {''a''})] \<and>
   (''crtsh'', \<lambda>w. Inr (run_crtsh ''example.com'' (crtsh_server w)))
     \<in> set (collection_tasks plain_cfg ''example.com'') \<and>
   map_of (results (run_all plain_cfg ''example.com'' example_world)) ''crtsh''
     = Some (outcome (Inr (run_crtsh ''example.com'' (crtsh_server example_world))))"
proof -
  have h1: "set [(''s'', {''a''})] = set [(''s'', {''a''}), (''s'', {''a''})]" by simp
  have h2: "(''s'', {''a''}) \<in> set [(''s'', {''a''})]" by simp
  have h3: "(''crtsh'', \<lambda>w. Inr (run_crtsh ''example.com'' (crtsh_server w)))
              \<in> set (collection_tasks plain_cfg ''example.com'')"
    by (simp add: collection_tasks_def)
  note T = combined_result_is_commutative_union
      [where rs = "[(''s'', {''a''})]" and rs' = "[(''s'', {''a''}), (''s'', {''a''})]"
         and n = "''s''" and s = "{''a''}" and n' = "''t''"
         and cfg = plain_cfg and d = "''example.com''" and w = example_world]
  from T h1 have c1: "combined_result [(''s'', {''a''})]
                      = combined_result [(''s'', {''a''}), (''s'', {''a''})]"
    by blast
  from T h2 have c2: "combined_result ([(''s'', {''a''})] @ [(''t'', {''a''})])
                      = combined_result [(''s'', {''a''})]"
    by blast
  from T have q: "\<forall>(name, task) \<in> set (collection_tasks plain_cfg ''example.com'').
      map_of (results (run_all plain_cfg ''example.com'' example_world)) name
        = Some (outcome (task example_world))"
    by blast
  from bspec [OF q h3]
  have c3: "map_of (results (run_all plain_cfg ''example.com'' example_world)) ''crtsh''
     = Some (outcome (Inr (run_crtsh ''example.com'' (crtsh_server example_world))))"
    by simp
  from h1 h2 h3 c1 c2 c3 show ?thesis by blast
qed












section \<open>Strict suffix form of the SecurityTrails and Shodan results\<close>

lemma securitytrails_fold:
  "x \<in> fold (securitytrails_add d) subs acc \<Longrightarrow>
     x \<in> acc \<or> ((\<exists>p. x = p @ ''.'' @ d) \<and> validate_domain x)"
proof (induction subs arbitrary: acc)
  case Nil
  then show ?case by simp
next
  case (Cons sub subs)
  from Cons.prems have "x \<in> fold (securitytrails_add d) subs (securitytrails_add d sub acc)"
    by simp
  then have "x \<in> securitytrails_add d sub acc
             \<or> ((\<exists>p. x = p @ ''.'' @ d) \<and> validate_domain x)"
    by (rule Cons.IH)
  then show ?case
    by (auto simp: securitytrails_add_def Let_def split: if_splits)
qed

lemma shodan_fold:
  "x \<in> fold (shodan_add d) rs acc \<Longrightarrow>
     x \<in> acc \<or> ((\<exists>p. x = p @ ''.'' @ d) \<and> validate_domain x)"
proof (induction rs arbitrary: acc)
  case Nil
  then show ?case by simp
next
  case (Cons r rs)
  from Cons.prems have "x \<in> fold (shodan_add d) rs (shodan_add d r acc)"
    by simp
  then have "x \<in> shodan_add d r acc \<or> ((\<exists>p. x = p @ ''.'' @ d) \<and> validate_domain x)"
    by (rule Cons.IH)
  then show ?case
    by (auto simp: shodan_add_def Let_def split: if_splits)
qed

lemma shodan_types_fold:
  "x \<in> fold (\<lambda>t s. fold (shodan_add d) (shodan_records data t) s) ts acc \<Longrightarrow>
     x \<in> acc \<or> ((\<exists>p. x = p @ ''.'' @ d) \<and> validate_domain x)"
proof (induction ts arbitrary: acc)
  case Nil
  then show ?case by simp
next
  case (Cons t ts)
  from Cons.prems
  have "x \<in> fold (\<lambda>t s. fold (shodan_add d) (shodan_records data t) s) ts
              (fold (shodan_add d) (shodan_records data t) acc)"
    by simp
  then have "x \<in> fold (shodan_add d) (shodan_records data t) acc
             \<or> ((\<exists>p. x = p @ ''.'' @ d) \<and> validate_domain x)"
    by (rule Cons.IH)
  then show ?case
    using shodan_fold by blast
qed

lemma shodan_extract_mem:
  "x \<in> shodan_extract d data \<Longrightarrow> (\<exists>p. x = p @ ''.'' @ d) \<and> validate_domain x"
  unfolding shodan_extract_def using shodan_types_fold [of x d data _ "{}"] by blast

lemma securitytrails_found:
  "x \<in> found (run_securitytrails cfg d srv) \<Longrightarrow>
     (\<exists>p. x = p @ ''.'' @ d) \<and> validate_domain x"
  using securitytrails_fold [of x d _ "{}"]
  by (auto simp: run_securitytrails_def nothing_def Let_def
           split: if_splits http.splits option.splits)

lemma shodan_found:
  "x \<in> found (run_shodan cfg d srv) \<Longrightarrow> (\<exists>p. x = p @ ''.'' @ d) \<and> validate_domain x"
  using shodan_extract_mem [of x d]
  by (auto simp: run_shodan_def nothing_def Let_def
           split: if_splits http.splits option.splits)

lemma evil_valid: "validate_domain ''example.com.evil.org''"
  by code_simp

lemma evil_contains: "contains ''example.com'' ''example.com.evil.org''"
  by code_simp

lemma evil_strip: "py_strip '' example.com.evil.org '' = ''example.com.evil.org''"
  by code_simp

lemma crtsh_admits:
  "''example.com.evil.org'' \<in> found (run_crtsh ''example.com'' crtsh_page)"
  by (simp add: run_crtsh_def crtsh_page_def raise_for_status_def crtsh_add_def Let_def
        evil_valid evil_contains evil_strip)

lemma st_run:
  "found (run_securitytrails example_cfg ''example.com'' securitytrails_reply) = {''www.example.com''}"
  by code_simp

lemma shodan_run:
  "found (run_shodan example_cfg ''example.com'' shodan_reply) = {''mail.example.com''}"
  by code_simp

text \<open>
  Claim C10.  Every name returned by \<open>run_securitytrails\<close> or by \<open>run_shodan\<close>
  for the domain \<open>d\<close> is some prefix, a dot and \<open>d\<close>, and passes
  \<open>validate_domain\<close>, whatever the server answers.  \<open>run_crtsh\<close> is different: for
  \<open>example.com\<close> it admits \<open>example.com.evil.org\<close>, which contains the domain but
  does not end with it.
\<close>

theorem securitytrails_shodan_strict_suffix:
  "(\<forall>x \<in> found (run_securitytrails cfg d st_srv).
      (\<exists>p. x = p @ ''.'' @ d) \<and> validate_domain x) \<and>
   (\<forall>x \<in> found (run_shodan cfg d sh_srv).
      (\<exists>p. x = p @ ''.'' @ d) \<and> validate_domain x) \<and>
   ''example.com.evil.org'' \<in> found (run_crtsh ''example.com'' crtsh_page) \<and>
   \<not> suffix ''.example.com'' ''example.com.evil.org''"
  using securitytrails_found shodan_found crtsh_admits
  by (simp add: suffix_def)

theorem securitytrails_shodan_strict_suffix_witness:
  "''www.example.com'' \<in> found (run_securitytrails example_cfg ''example.com'' securitytrails_reply) \<and>
   (\<exists>p. ''www.example.com'' = p @ ''.'' @ ''example.com'') \<and>
   validate_domain ''www.example.com'' \<and>
   ''mail.example.com'' \<in> found (run_shodan example_cfg ''example.com'' shodan_reply) \<and>
   (\<exists>p. ''mail.example.com'' = p @ ''.'' @ ''example.com'') \<and>
   validate_domain ''mail.example.com''"
proof -
  have a: "''www.example.com'' \<in> found (run_securitytrails example_cfg ''example.com'' securitytrails_reply)"
    by (simp add: st_run)
  have b: "''mail.example.com'' \<in> found (run_shodan example_cfg ''example.com'' shodan_reply)"
    by (simp add: shodan_run)
  from a b
    securitytrails_shodan_strict_suffix [of example_cfg "''example.com''" securitytrails_reply shodan_reply]
  show ?thesis by blast
qed

end
